theory Spec2Isabelle
  imports Complex_Main
begin

section \<open>Adaptive model lifecycle manager: shallow embedding\<close>

text \<open>
  The embedding follows \<^verbatim>\<open>prediction_service_v3_improved.py\<close>,
  \<^verbatim>\<open>data_quality_monitor.py\<close> and \<^verbatim>\<open>drift_alert_system.py\<close>.
  Prices and statistics are Python floats in the source; they are modelled as exact reals,
  so rounding is not represented. Points in time (\<^verbatim>\<open>datetime\<close>) are reals counting
  seconds, and every call of \<^verbatim>\<open>datetime.now()\<close> or \<^verbatim>\<open>time.time()\<close> reads a clock
  value that the model takes as an argument.
\<close>

subsection \<open>Errors\<close>

text \<open>The Python exceptions the modelled code can raise.\<close>

datatype py_error =
    ZeroDivisionError
  | ValueError
  | KeyError
  | TypeError
  | LinAlgError
  | IOError
  | FitError

subsection \<open>Reports\<close>

text \<open>\<^verbatim>\<open>DataQualityReport\<close> (data_quality_monitor.py, lines 31-67).\<close>

record quality_report =
  q_good_id :: int
  q_timestamp :: real
  total_points :: nat
  missing_values :: nat
  missing_ratio :: real
  outlier_count :: nat
  outlier_ratio :: real
  outlier_indices :: "nat list"
  price_mean :: real
  price_std :: real
  price_min :: real
  price_max :: real
  price_range :: real
  price_cv :: real
  volatility :: "real option"
  trend :: string
  trend_strength :: real
  suspicious_days :: nat
  consecutive_same :: nat
  quality_score :: real
  quality_level :: string
  warnings :: "string list"

text \<open>\<^verbatim>\<open>DataDriftReport\<close> (data_quality_monitor.py, lines 269-297).\<close>

record drift_report =
  d_good_id :: int
  d_timestamp :: real
  mean_shift :: real
  mean_shift_pct :: real
  std_shift :: real
  std_shift_pct :: real
  ks_statistic :: real
  ks_pvalue :: real
  kl_divergence :: real
  wasserstein_distance :: real
  range_shift :: real
  range_shift_pct :: real
  drift_score :: real
  drift_level :: string
  has_drift :: bool
  drift_reason :: "string option"

subsection \<open>The per-item model object\<close>

text \<open>
  One market snapshot row as \<^verbatim>\<open>fetch_historical_data\<close> returns it. The SQL query keeps
  only rows with both prices present and positive, so the prices are plain numbers; the
  order counts can be NULL, which pandas holds as NaN (\<open>None\<close> here).
\<close>

record observation =
  timestamp :: real
  buy_price :: real
  sell_price :: real
  buy_orders :: "real option"
  sell_orders :: "real option"

text \<open>The \<^verbatim>\<open>weights\<close> dictionary, with its three fixed keys.\<close>

record weights_dict =
  w_lr :: real
  w_prophet :: real
  w_xgb :: real

text \<open>
  The \<^verbatim>\<open>metrics\<close> dictionary of \<^verbatim>\<open>PredictionModel.__init__\<close>, with the keys that
  \<^verbatim>\<open>_full_retrain\<close> adds later. A key holding \<^verbatim>\<open>None\<close>, and a key that is absent,
  are both \<open>None\<close>.
\<close>

record metrics_dict =
  lr_mse :: "real option"
  lr_mae :: "real option"
  lr_mape :: "real option"
  xgb_mse :: "real option"
  xgb_mae :: "real option"
  xgb_mape :: "real option"
  prophet_mse :: "real option"
  prophet_mae :: "real option"
  prophet_mape :: "real option"
  ensemble_mse :: "real option"
  ensemble_mae :: "real option"
  ensemble_mape :: "real option"
  training_time :: "real option"
  training_count :: nat
  last_training :: "real option"
  training_strategy :: "string option"
  m_quality_report :: "quality_report option"
  m_drift_report :: "drift_report option"

text \<open>
  A submodel attribute is \<^verbatim>\<open>None\<close>, an estimator object that was constructed but not
  fitted yet, or a fitted estimator. What a fitted estimator holds is opaque (\<open>'h\<close>).
\<close>

datatype 'h estimator = Unfitted | Fitted 'h

record 'h prediction_model =
  good_id :: int
  lr :: "'h estimator option"
  prophet :: "'h estimator option"
  xgb :: "'h estimator option"
  last_price :: "real option"
  last_timestamp :: "real option"
  train_size :: nat
  weights :: weights_dict
  model_version :: string
  feature_set :: string
  historical_prices :: "real list option"
  historical_df :: "observation list option"
  metrics :: metrics_dict

subsection \<open>Training-strategy decision\<close>

text \<open>
  \<^verbatim>\<open>_decide_training_strategy\<close> (lines 644-677). The model age is 999 days when no
  last timestamp is stored, and the seconds since the last timestamp over 86400 otherwise.
\<close>

definition has_submodels :: "'h prediction_model \<Rightarrow> bool" where
  "has_submodels m = (\<not> (xgb m = None \<or> lr m = None \<or> prophet m = None))"

definition model_age_days :: "'h prediction_model \<Rightarrow> real \<Rightarrow> real" where
  "model_age_days m now =
     (case last_timestamp m of None \<Rightarrow> 999 | Some t \<Rightarrow> (now - t) / 86400)"

definition decide_training_strategy :: "'h prediction_model \<Rightarrow> real \<Rightarrow> drift_report \<Rightarrow> string" where
  "decide_training_strategy m now dr =
     (if xgb m = None \<or> lr m = None \<or> prophet m = None then ''full''
      else let age = model_age_days m now;
               level = drift_level dr;
               ks = ks_statistic dr
           in if age > 7 then ''full''
              else if level = ''severe'' \<or> ks > 0.5 then ''full''
              else if level = ''moderate'' \<or> (0.3 < ks \<and> ks \<le> 0.5) then ''incremental''
              else if age > 3 then ''incremental''
              else ''skip'')"

text \<open>
  The decision table as the specification words it: six rules over the four inputs, the
  first matching rule wins.
\<close>

datatype rule_outcome = Rule_full | Rule_incremental | Rule_skip

fun strategy_name :: "rule_outcome \<Rightarrow> string" where
  "strategy_name Rule_full = ''full''"
| "strategy_name Rule_incremental = ''incremental''"
| "strategy_name Rule_skip = ''skip''"

definition decision_rules :: "bool \<Rightarrow> real \<Rightarrow> string \<Rightarrow> real \<Rightarrow> (bool \<times> rule_outcome) list" where
  "decision_rules existing age level ks =
     [(\<not> existing, Rule_full),
      (age > 7, Rule_full),
      (level = ''severe'' \<or> ks > 0.5, Rule_full),
      (level = ''moderate'' \<or> (0.3 < ks \<and> ks \<le> 0.5), Rule_incremental),
      (age > 3, Rule_incremental),
      (True, Rule_skip)]"

fun first_match :: "(bool \<times> rule_outcome) list \<Rightarrow> rule_outcome option" where
  "first_match [] = None"
| "first_match ((c, r) # rs) = (if c then Some r else first_match rs)"

subsection \<open>Model cache\<close>

text \<open>
  \<^verbatim>\<open>ModelCacheManager\<close> (lines 174-214). The two dictionaries are association lists in
  insertion order, since \<^verbatim>\<open>min\<close> over a dictionary returns the first minimal key in
  that order. The locks are left out: the model is sequential.
\<close>

record ('k, 'v) model_cache_manager =
  cache :: "('k \<times> 'v) list"
  access_time :: "('k \<times> real) list"
  max_size :: nat

definition new_cache :: "nat \<Rightarrow> ('k, 'v) model_cache_manager" where
  "new_cache n = \<lparr>cache = [], access_time = [], max_size = n\<rparr>"







definition clear :: "('k, 'v) model_cache_manager \<Rightarrow> bool \<times> ('k, 'v) model_cache_manager" where
  "clear c = (True, c\<lparr>cache := [], access_time := []\<rparr>)"










subsection \<open>Example values\<close>

text \<open>\<^verbatim>\<open>PredictionModel.__init__\<close> (lines 372-397).\<close>

definition init_metrics :: metrics_dict where
  "init_metrics = \<lparr>lr_mse = None, lr_mae = None, lr_mape = None,
     xgb_mse = None, xgb_mae = None, xgb_mape = None,
     prophet_mse = None, prophet_mae = None, prophet_mape = None,
     ensemble_mse = None, ensemble_mae = None, ensemble_mape = None,
     training_time = None, training_count = 0, last_training = None,
     training_strategy = None, m_quality_report = None, m_drift_report = None\<rparr>"

definition default_weights :: weights_dict where
  "default_weights = \<lparr>w_lr = 0.2, w_prophet = 0.3, w_xgb = 0.5\<rparr>"

definition init_model :: "int \<Rightarrow> 'h prediction_model" where
  "init_model gid = \<lparr>good_id = gid, lr = None, prophet = None, xgb = None,
     last_price = None, last_timestamp = None, train_size = 0,
     weights = default_weights, model_version = ''3.0'', feature_set = ''full'',
     historical_prices = None, historical_df = None, metrics = init_metrics\<rparr>"

text \<open>A model with three fitted submodels, last trained at time 0.\<close>

definition trained_model :: "unit prediction_model" where
  "trained_model = (init_model 1)\<lparr>lr := Some (Fitted ()), prophet := Some (Fitted ()),
     xgb := Some (Fitted ()), last_price := Some 100, last_timestamp := Some 0\<rparr>"

text \<open>The report that \<^verbatim>\<open>detect_drift\<close> returns for a window that is too small.\<close>

definition zero_drift_report :: "real \<Rightarrow> drift_report" where
  "zero_drift_report now = \<lparr>d_good_id = 0, d_timestamp = now,
     mean_shift = 0, mean_shift_pct = 0, std_shift = 0, std_shift_pct = 0,
     ks_statistic = 0, ks_pvalue = 1, kl_divergence = 0, wasserstein_distance = 0,
     range_shift = 0, range_shift_pct = 0, drift_score = 0, drift_level = ''none'',
     has_drift = False, drift_reason = None\<rparr>"

subsection \<open>Ensemble weights\<close>

text \<open>
  \<^verbatim>\<open>self.metrics.get(key) or 1.0\<close>: a missing value and the falsy value 0.0 both become
  1.0.
\<close>

definition mape_or_default :: "real option \<Rightarrow> real" where
  "mape_or_default v = (case v of None \<Rightarrow> 1 | Some x \<Rightarrow> if x = 0 then 1 else x)"

text \<open>
  \<^verbatim>\<open>_update_weights\<close> (lines 512-533). A zero denominator raises ZeroDivisionError inside
  the \<^verbatim>\<open>try\<close>, and the handler stores the fixed prior weights.
\<close>

definition update_weights :: "'h prediction_model \<Rightarrow> 'h prediction_model" where
  "update_weights m =
     (let mape_lr = mape_or_default (lr_mape (metrics m));
          mape_prophet = mape_or_default (prophet_mape (metrics m));
          mape_xgb = mape_or_default (xgb_mape (metrics m))
      in if mape_lr + 0.001 = 0 \<or> mape_prophet + 0.001 = 0 \<or> mape_xgb + 0.001 = 0
         then m\<lparr>weights := \<lparr>w_lr = 0.2, w_prophet = 0.3, w_xgb = 0.5\<rparr>\<rparr>
         else let inv_lr = 1 / (mape_lr + 0.001);
                  inv_prophet = 1 / (mape_prophet + 0.001);
                  inv_xgb = 1 / (mape_xgb + 0.001);
                  total_inv = 0 + inv_lr + inv_prophet + inv_xgb
              in if total_inv > 0
                 then m\<lparr>weights := \<lparr>w_lr = inv_lr / total_inv,
                                      w_prophet = inv_prophet / total_inv,
                                      w_xgb = inv_xgb / total_inv\<rparr>\<rparr>
                 else m\<lparr>weights := \<lparr>w_lr = 0.2, w_prophet = 0.3, w_xgb = 0.5\<rparr>\<rparr>)"

text \<open>A metric value as the claim admits it: missing, or a positive number.\<close>

definition positive_or_missing :: "real option \<Rightarrow> bool" where
  "positive_or_missing v = (case v of None \<Rightarrow> True | Some x \<Rightarrow> 0 < x)"

text \<open>Models whose three validation errors are given.\<close>

definition with_mapes :: "real option \<Rightarrow> real option \<Rightarrow> real option \<Rightarrow> unit prediction_model" where
  "with_mapes a b c =
     (init_model 1)\<lparr>metrics := init_metrics\<lparr>lr_mape := a, prophet_mape := b, xgb_mape := c\<rparr>\<rparr>"

subsection \<open>Library functions\<close>

text \<open>
  numpy and scipy routines that the repository calls but does not contain. The simple
  reductions are written out; the numerical routines are parameters of the model: the
  degree-one least-squares fit \<^verbatim>\<open>np.polyfit(x, y, 1)\<close> (slope and intercept, or the
  exception it raises), the two-sample Kolmogorov-Smirnov test, the density histograms,
  the relative entropy and the Wasserstein distance.
\<close>

record np_lib =
  polyfit :: "real list \<Rightarrow> real list \<Rightarrow> py_error + (real \<times> real)"
  ks_2samp :: "real list \<Rightarrow> real list \<Rightarrow> real \<times> real"
  histogram10 :: "real list \<Rightarrow> real list \<times> real list"
  histogram_edges :: "real list \<Rightarrow> real list \<Rightarrow> real list"
  entropy :: "real list \<Rightarrow> real list \<Rightarrow> real"
  wasserstein :: "real list \<Rightarrow> real list \<Rightarrow> real"

definition np_mean :: "real list \<Rightarrow> real" where
  "np_mean xs = sum_list xs / real (length xs)"

definition np_var :: "real list \<Rightarrow> real" where
  "np_var xs = np_mean (map (\<lambda>x. (x - np_mean xs)\<^sup>2) xs)"

definition np_std :: "real list \<Rightarrow> real" where
  "np_std xs = sqrt (np_var xs)"

fun np_min :: "real list \<Rightarrow> real" where
  "np_min [] = 0"
| "np_min (x # xs) = foldl min x xs"

fun np_max :: "real list \<Rightarrow> real" where
  "np_max [] = 0"
| "np_max (x # xs) = foldl max x xs"

text \<open>
  \<^verbatim>\<open>np.percentile\<close> with its default linear interpolation, on a non-empty list: the
  value at position \<open>(n - 1) q / 100\<close> of the sorted data.
\<close>

definition percentile :: "real list \<Rightarrow> real \<Rightarrow> real" where
  "percentile xs q =
     (let s = sort xs;
          n = length s;
          pos = real (n - 1) * q / 100;
          lo = nat \<lfloor>pos\<rfloor>;
          hi = min (lo + 1) (n - 1);
          g = pos - real lo
      in s ! lo + (s ! hi - s ! lo) * g)"

text \<open>\<^verbatim>\<open>np.diff(prices) / prices[:-1]\<close>, as pairs of (previous, current) values.\<close>

fun steps :: "real list \<Rightarrow> (real \<times> real) list" where
  "steps (x # y # xs) = (x, y) # steps (y # xs)"
| "steps xs = []"

text \<open>\<^verbatim>\<open>int(x)\<close> on a float truncates towards zero; slices accept negative bounds.\<close>

definition py_int :: "real \<Rightarrow> int" where
  "py_int x = (if x \<ge> 0 then \<lfloor>x\<rfloor> else \<lceil>x\<rceil>)"

definition slice_to :: "int \<Rightarrow> 'a list \<Rightarrow> 'a list" where
  "slice_to k xs = (if k \<ge> 0 then take (nat k) xs else take (length xs - nat (- k)) xs)"

definition slice_from :: "int \<Rightarrow> 'a list \<Rightarrow> 'a list" where
  "slice_from k xs = (if k \<ge> 0 then drop (nat k) xs else drop (length xs - nat (- k)) xs)"

subsection \<open>Data quality check\<close>

text \<open>
  \<^verbatim>\<open>DataQualityChecker\<close> (data_quality_monitor.py, lines 70-262). The texts of the
  warnings are Chinese sentences with formatted numbers; the model keeps one ASCII tag for
  each warning instead.
\<close>

record quality_checker =
  outlier_method :: string
  outlier_threshold :: real

definition QUALITY_CHECKER :: quality_checker where
  "QUALITY_CHECKER = \<lparr>outlier_method = ''iqr'', outlier_threshold = 1.5\<rparr>"

text \<open>Indices of the elements that satisfy a predicate (\<^verbatim>\<open>np.where(...)[0]\<close>).\<close>

definition np_where :: "('a \<Rightarrow> bool) \<Rightarrow> 'a list \<Rightarrow> nat list" where
  "np_where P xs = filter (\<lambda>i. P (xs ! i)) [0 ..< length xs]"

text \<open>
  \<^verbatim>\<open>detect_outliers_iqr\<close> (lines 84-96). On an empty array the percentile either raises
  or yields NaN; in the second case no index is selected and line 94 divides 0 by
  \<^verbatim>\<open>len(prices) = 0\<close>, two Python integers. So the empty array always raises.
\<close>

definition detect_outliers_iqr :: "quality_checker \<Rightarrow> real list \<Rightarrow> py_error + (nat list \<times> real)" where
  "detect_outliers_iqr self prices =
     (if prices = [] then Inl ZeroDivisionError
      else let Q1 = percentile prices 25;
               Q3 = percentile prices 75;
               IQR = Q3 - Q1;
               lower_bound = Q1 - outlier_threshold self * IQR;
               upper_bound = Q3 + outlier_threshold self * IQR;
               outliers = np_where (\<lambda>p. p < lower_bound \<or> p > upper_bound) prices
           in Inr (outliers, real (length outliers) / real (length prices)))"

text \<open>
  \<^verbatim>\<open>detect_outliers_zscore\<close> (lines 98-104). With zero standard deviation every z-score
  is NaN and no comparison holds.
\<close>

definition detect_outliers_zscore :: "quality_checker \<Rightarrow> real list \<Rightarrow> py_error + (nat list \<times> real)" where
  "detect_outliers_zscore self prices =
     (if prices = [] then Inl ZeroDivisionError
      else let mu = np_mean prices;
               sd = np_std prices;
               outliers = (if sd = 0 then []
                           else np_where (\<lambda>p. \<bar>(p - mu) / sd\<bar> > outlier_threshold self) prices)
           in Inr (outliers, real (length outliers) / real (length prices)))"

definition detect_outliers :: "quality_checker \<Rightarrow> real list \<Rightarrow> py_error + (nat list \<times> real)" where
  "detect_outliers self prices =
     (if outlier_method self = ''iqr'' then detect_outliers_iqr self prices
      else detect_outliers_zscore self prices)"

text \<open>\<^verbatim>\<open>calculate_trend\<close> (lines 113-135).\<close>

definition calculate_trend :: "np_lib \<Rightarrow> real list \<Rightarrow> py_error + (string \<times> real)" where
  "calculate_trend lib prices =
     (let x = map real [0 ..< length prices]
      in case polyfit lib x prices of
           Inl e \<Rightarrow> Inl e
         | Inr (slope, intercept) \<Rightarrow>
             let y_pred = map (\<lambda>xi. slope * xi + intercept) x;
                 ss_res = sum_list (map (\<lambda>(p, yp). (p - yp)\<^sup>2) (zip prices y_pred));
                 ss_tot = sum_list (map (\<lambda>p. (p - np_mean prices)\<^sup>2) prices);
                 r_squared = (if ss_tot > 0 then 1 - ss_res / ss_tot else 0);
                 tr = (if slope > 0.0001 then ''increasing''
                       else if slope < - 0.0001 then ''decreasing''
                       else ''stable'')
             in Inr (tr, \<bar>r_squared\<bar>))"

text \<open>
  Cells that hold NaN. Only the two order counts can: see \<open>observation\<close>.
\<close>

definition count_missing :: "observation list \<Rightarrow> nat" where
  "count_missing df =
     length (filter (\<lambda>r. buy_orders r = None) df) + length (filter (\<lambda>r. sell_orders r = None) df)"

text \<open>
  The volatility (lines 170-171): the standard deviation of the period returns. A zero
  price makes a return infinite or NaN, and then the standard deviation is NaN (\<open>None\<close>),
  which compares false with everything.
\<close>

definition volatility_of :: "real list \<Rightarrow> real option" where
  "volatility_of prices =
     (let st = steps prices
      in if st = [] then Some 0
         else if \<exists>(prev, cur) \<in> set st. prev = 0 then None
         else Some (np_std (map (\<lambda>(prev, cur). (cur - prev) / prev) st)))"

definition nan_gt :: "real option \<Rightarrow> real \<Rightarrow> bool" where
  "nan_gt v c = (case v of None \<Rightarrow> False | Some x \<Rightarrow> x > c)"

text \<open>
  The loop of lines 181-188. The prices are numpy floats: a division by zero gives
  infinity (which exceeds 0.10) or, for 0/0, NaN (which does not).
\<close>

definition is_jump :: "real \<times> real \<Rightarrow> bool" where
  "is_jump st = (case st of (prev, cur) \<Rightarrow>
     if prev = 0 then cur \<noteq> prev else \<bar>cur - prev\<bar> / prev > 0.10)"

definition count_suspicious :: "real list \<Rightarrow> nat" where
  "count_suspicious prices = length (filter is_jump (steps prices))"

definition count_consecutive_same :: "real list \<Rightarrow> nat" where
  "count_consecutive_same prices = length (filter (\<lambda>(prev, cur). cur = prev) (steps prices))"

text \<open>The penalties of lines 190-227, one per \<^verbatim>\<open>if\<close> statement, with their warning tags.\<close>

definition penalty_missing :: "real \<Rightarrow> real \<times> string list" where
  "penalty_missing mr = (if mr > 0.05 then (20, [''missing_values'']) else (0, []))"

definition penalty_outliers :: "real \<Rightarrow> real \<times> string list" where
  "penalty_outliers orat =
     (if orat > 0.1 then (15, [''many_outliers''])
      else if orat > 0.05 then (5, [''some_outliers''])
      else (0, []))"

definition penalty_volatility :: "real option \<Rightarrow> real \<times> string list" where
  "penalty_volatility v = (if nan_gt v 0.05 then (10, [''high_volatility'']) else (0, []))"

definition penalty_same :: "nat \<Rightarrow> real \<times> string list" where
  "penalty_same cs = (if cs > 5 then (15, [''consecutive_same'']) else (0, []))"

definition penalty_jumps :: "nat \<Rightarrow> nat \<Rightarrow> real \<times> string list" where
  "penalty_jumps sd n = (if real sd > real n * 0.1 then (10, [''price_jumps'']) else (0, []))"

definition penalty_points :: "nat \<Rightarrow> real \<times> string list" where
  "penalty_points n =
     (if n < 10 then (20, [''too_few_points''])
      else if n < 20 then (10, [''few_points''])
      else (0, []))"

definition level_of :: "real \<Rightarrow> string" where
  "level_of score =
     (if score \<ge> 80 then ''good'' else if score \<ge> 60 then ''warning'' else ''critical'')"

text \<open>
  \<^verbatim>\<open>check_quality\<close> (lines 137-262). The data frame has the five columns of
  \<^verbatim>\<open>fetch_historical_data\<close>. \<open>now\<close> is the reading of \<^verbatim>\<open>datetime.now()\<close>.
\<close>

definition check_quality :: "np_lib \<Rightarrow> quality_checker \<Rightarrow> observation list \<Rightarrow> int \<Rightarrow> real
    \<Rightarrow> py_error + quality_report" where
  "check_quality lib self df gid now =
     (let n = length df;
          missing = count_missing df;
          mratio = real missing / real (n * 5);
          prices = map sell_price df
      in case detect_outliers self prices of
           Inl e \<Rightarrow> Inl e
         | Inr (out_idx, out_ratio) \<Rightarrow>
             let p_mean = np_mean prices;
                 p_std = np_std prices;
                 p_min = np_min prices;
                 p_max = np_max prices;
                 p_range = p_max - p_min;
                 p_cv = (if p_mean > 0 then p_std / p_mean else 0);
                 vol = volatility_of prices
             in case calculate_trend lib prices of
                  Inl e \<Rightarrow> Inl e
                | Inr (tr, strength) \<Rightarrow>
                    let susp = count_suspicious prices;
                        same = count_consecutive_same prices;
                        pens = [penalty_missing mratio, penalty_outliers out_ratio,
                                penalty_volatility vol, penalty_same same,
                                penalty_jumps susp n, penalty_points n];
                        score = max 0 (min 100 (100 - sum_list (map fst pens)))
                    in Inr \<lparr>q_good_id = gid, q_timestamp = now, total_points = n,
                            missing_values = missing, missing_ratio = mratio,
                            outlier_count = length out_idx, outlier_ratio = out_ratio,
                            outlier_indices = out_idx,
                            price_mean = p_mean, price_std = p_std, price_min = p_min,
                            price_max = p_max, price_range = p_range, price_cv = p_cv,
                            volatility = vol, trend = tr, trend_strength = strength,
                            suspicious_days = susp, consecutive_same = same,
                            quality_score = score, quality_level = level_of score,
                            warnings = concat (map snd pens)\<rparr>)"

text \<open>
  The ordinary least-squares line through the points, which is what the library fit
  returns on well-conditioned data. It serves as the library parameter in examples.
\<close>

definition ols_fit :: "real list \<Rightarrow> real list \<Rightarrow> py_error + (real \<times> real)" where
  "ols_fit x y =
     (if x = [] then Inl TypeError
      else let xm = np_mean x; ym = np_mean y;
               sxx = sum_list (map (\<lambda>xi. (xi - xm)\<^sup>2) x);
               sxy = sum_list (map (\<lambda>(xi, yi). (xi - xm) * (yi - ym)) (zip x y))
           in if sxx = 0 then Inl LinAlgError
              else Inr (sxy / sxx, ym - (sxy / sxx) * xm))"

definition example_lib :: np_lib where
  "example_lib = \<lparr>polyfit = ols_fit, ks_2samp = (\<lambda>a b. (0, 1)),
     histogram10 = (\<lambda>a. ([], [])), histogram_edges = (\<lambda>a e. []),
     entropy = (\<lambda>p q. 0), wasserstein = (\<lambda>a b. 0)\<rparr>"

definition obs :: "real \<Rightarrow> real \<Rightarrow> observation" where
  "obs t p = \<lparr>timestamp = t, buy_price = p, sell_price = p,
     buy_orders = Some 100, sell_orders = Some 100\<rparr>"

subsection \<open>Drift detection\<close>

text \<open>
  \<^verbatim>\<open>DataDriftDetector\<close> (data_quality_monitor.py, lines 300-457). The reason text is
  represented by one ASCII tag for each part that the source joins with a semicolon.
\<close>

record drift_detector =
  recent_ratio :: real
  drift_threshold :: real

definition DRIFT_DETECTOR :: drift_detector where
  "DRIFT_DETECTOR = \<lparr>recent_ratio = 0.3, drift_threshold = 0.5\<rparr>"

definition split_idx :: "drift_detector \<Rightarrow> 'a list \<Rightarrow> int" where
  "split_idx self prices = py_int (real (length prices) * (1 - recent_ratio self))"

definition old_prices :: "drift_detector \<Rightarrow> 'a list \<Rightarrow> 'a list" where
  "old_prices self prices = slice_to (split_idx self prices) prices"

definition new_prices :: "drift_detector \<Rightarrow> 'a list \<Rightarrow> 'a list" where
  "new_prices self prices = slice_from (split_idx self prices) prices"

fun join_reasons :: "string list \<Rightarrow> string" where
  "join_reasons [] = []"
| "join_reasons [r] = r"
| "join_reasons (r # rs) = r @ ''; '' @ join_reasons rs"

definition detect_drift :: "np_lib \<Rightarrow> drift_detector \<Rightarrow> real list \<Rightarrow> real \<Rightarrow> drift_report" where
  "detect_drift lib self prices now =
     (let olds = old_prices self prices;
          news = new_prices self prices
      in if length news < 3 \<or> length olds < 3 then
           \<lparr>d_good_id = 0, d_timestamp = now,
            mean_shift = 0, mean_shift_pct = 0, std_shift = 0, std_shift_pct = 0,
            ks_statistic = 0, ks_pvalue = 1.0, kl_divergence = 0, wasserstein_distance = 0,
            range_shift = 0, range_shift_pct = 0, drift_score = 0, drift_level = ''none'',
            has_drift = False, drift_reason = None\<rparr>
         else
           let old_mean = np_mean olds; new_mean = np_mean news;
               old_std = np_std olds; new_std = np_std news;
               m_shift = \<bar>new_mean - old_mean\<bar>;
               m_shift_pct = (if old_mean > 0 then m_shift / old_mean else 0);
               s_shift = \<bar>new_std - old_std\<bar>;
               s_shift_pct = (if old_std > 0 then s_shift / old_std else 0);
               ks = ks_2samp lib olds news;
               h_old = histogram10 lib olds;
               hist_old = map (\<lambda>h. h + 1 / 10 ^ 10) (fst h_old);
               hist_new = map (\<lambda>h. h + 1 / 10 ^ 10) (histogram_edges lib news (snd h_old));
               hist_old' = map (\<lambda>h. h / sum_list hist_old) hist_old;
               hist_new' = map (\<lambda>h. h / sum_list hist_new) hist_new;
               kl = entropy lib hist_old' hist_new';
               wd = wasserstein lib olds news;
               old_range = np_max olds - np_min olds;
               new_range = np_max news - np_min news;
               r_shift = \<bar>new_range - old_range\<bar>;
               r_shift_pct = (if old_range > 0 then r_shift / old_range else 0);
               parts = [if m_shift_pct > 0.10 then (30, [''mean_shift''])
                        else if m_shift_pct > 0.05 then (15, []) else (0, []),
                        if s_shift_pct > 0.20 then (20, [''std_shift''])
                        else if s_shift_pct > 0.10 then (10, []) else (0, []),
                        if snd ks < 0.01 then (30, [''ks_pvalue''])
                        else if snd ks < 0.05 then (15, []) else (0, []),
                        if kl > 0.5 then (10, [''kl_divergence''])
                        else if kl > 0.2 then (5, []) else (0, []),
                        if r_shift_pct > 0.30 then (10, [''range_shift'']) else (0, [])];
               score = min 100 (sum_list (map fst parts));
               reasons = concat (map snd parts);
               level = (if score < 20 then ''none'' else if score < 40 then ''mild''
                        else if score < 60 then ''moderate'' else ''severe'');
               drift = (if score < 20 then False
                        else if score < 40 then score \<ge> drift_threshold self * 100 * 0.4
                        else if score < 60 then score \<ge> drift_threshold self * 100 * 0.6
                        else True)
           in \<lparr>d_good_id = 0, d_timestamp = now,
               mean_shift = m_shift, mean_shift_pct = m_shift_pct,
               std_shift = s_shift, std_shift_pct = s_shift_pct,
               ks_statistic = fst ks, ks_pvalue = snd ks, kl_divergence = kl,
               wasserstein_distance = wd, range_shift = r_shift, range_shift_pct = r_shift_pct,
               drift_score = score, drift_level = level, has_drift = drift,
               drift_reason = (if reasons = [] then None else Some (join_reasons reasons))\<rparr>)"

subsection \<open>Alert rules\<close>

text \<open>
  \<^verbatim>\<open>DriftAlertSystem\<close> (drift_alert_system.py, lines 61-228). The data that the rules
  read is the union of the quality report, the drift report and the metrics dictionary;
  these have no key in common that a rule reads, so the union is the triple. A message is
  the template's text with the fields of the rule's dictionary filled in; the model keeps
  the dictionary and the names of the template's placeholders, and
  \<^verbatim>\<open>str.format\<close> raises KeyError when a placeholder has no entry. Titles and
  recommended actions are Chinese sentences in the source and English glosses here.
\<close>

record combined_data =
  c_good_id :: int
  c_quality :: quality_report
  c_drift :: drift_report
  c_metrics :: metrics_dict

datatype msg_value = Num real | NaN | Str string | Absent

record alert =
  alert_id :: "int \<times> string \<times> real"
  a_timestamp :: real
  a_good_id :: int
  alert_type :: string
  alert_level :: string
  title :: string
  message :: "(string \<times> msg_value) list"
  a_metrics :: combined_data
  recommended_action :: string
  acknowledged :: bool
  acknowledged_by :: "string option"
  acknowledged_at :: "real option"

record alert_rule =
  rule_id :: string
  condition_func :: "combined_data \<Rightarrow> bool \<times> (string \<times> msg_value) list"
  rule_level :: string
  rule_title :: string
  placeholders :: "string list"

definition rule_data_quality_critical :: "combined_data \<Rightarrow> bool \<times> (string \<times> msg_value) list" where
  "rule_data_quality_critical d =
     (let qs = quality_score (c_quality d)
      in if qs < 40 then (True, [(''score'', Num qs), (''level'', Str (quality_level (c_quality d)))])
         else (False, []))"

definition rule_too_many_outliers :: "combined_data \<Rightarrow> bool \<times> (string \<times> msg_value) list" where
  "rule_too_many_outliers d =
     (let r = outlier_ratio (c_quality d)
      in if r > 0.15 then (True, [(''ratio'', Num (r * 100))]) else (False, []))"

definition rule_severe_drift :: "combined_data \<Rightarrow> bool \<times> (string \<times> msg_value) list" where
  "rule_severe_drift d =
     (if drift_level (c_drift d) = ''severe''
      then (True, [(''drift_score'', Num (drift_score (c_drift d))),
                   (''reason'', case drift_reason (c_drift d) of None \<Rightarrow> Absent | Some r \<Rightarrow> Str r)])
      else (False, []))"

definition rule_moderate_drift :: "combined_data \<Rightarrow> bool \<times> (string \<times> msg_value) list" where
  "rule_moderate_drift d =
     (if drift_level (c_drift d) = ''moderate''
      then (True, [(''drift_score'', Num (drift_score (c_drift d)))])
      else (False, []))"

definition rule_high_volatility :: "combined_data \<Rightarrow> bool \<times> (string \<times> msg_value) list" where
  "rule_high_volatility d =
     (case volatility (c_quality d) of
        None \<Rightarrow> (False, [])
      | Some v \<Rightarrow> if v > 0.08 then (True, [(''volatility'', Num (v * 100))]) else (False, []))"

definition rule_model_performance_drop :: "combined_data \<Rightarrow> bool \<times> (string \<times> msg_value) list" where
  "rule_model_performance_drop d =
     (case ensemble_mape (c_metrics d) of
        None \<Rightarrow> (False, [])
      | Some mape \<Rightarrow> if mape > 25 then (True, [(''mape'', Num mape)]) else (False, []))"

definition rule_consecutive_same_price :: "combined_data \<Rightarrow> bool \<times> (string \<times> msg_value) list" where
  "rule_consecutive_same_price d =
     (let cs = consecutive_same (c_quality d)
      in if cs > 10 then (True, [(''count'', Num (real cs))]) else (False, []))"

text \<open>\<^verbatim>\<open>_setup_rules\<close>: the seven rules in the order they are added.\<close>

definition setup_rules :: "alert_rule list" where
  "setup_rules =
     [\<lparr>rule_id = ''data_quality_critical'', condition_func = rule_data_quality_critical,
        rule_level = ''critical'', rule_title = ''data quality dropped severely'',
        placeholders = [''good_id'', ''score'', ''level'']\<rparr>,
      \<lparr>rule_id = ''too_many_outliers'', condition_func = rule_too_many_outliers,
        rule_level = ''warning'', rule_title = ''too many outliers'',
        placeholders = [''ratio'']\<rparr>,
      \<lparr>rule_id = ''severe_drift'', condition_func = rule_severe_drift,
        rule_level = ''critical'', rule_title = ''severe data drift detected'',
        placeholders = [''drift_score'', ''reason'']\<rparr>,
      \<lparr>rule_id = ''moderate_drift'', condition_func = rule_moderate_drift,
        rule_level = ''warning'', rule_title = ''moderate data drift detected'',
        placeholders = [''drift_score'']\<rparr>,
      \<lparr>rule_id = ''high_volatility'', condition_func = rule_high_volatility,
        rule_level = ''warning'', rule_title = ''market volatility too high'',
        placeholders = [''volatility'']\<rparr>,
      \<lparr>rule_id = ''model_performance_drop'', condition_func = rule_model_performance_drop,
        rule_level = ''warning'', rule_title = ''model accuracy dropped markedly'',
        placeholders = [''mape'']\<rparr>,
      \<lparr>rule_id = ''consecutive_same_price'', condition_func = rule_consecutive_same_price,
        rule_level = ''warning'', rule_title = ''consecutive identical prices detected'',
        placeholders = [''count'']\<rparr>]"

text \<open>\<^verbatim>\<open>AlertRule.check\<close> (lines 52-58).\<close>

definition rule_check :: "alert_rule \<Rightarrow> combined_data
    \<Rightarrow> py_error + (bool \<times> (string \<times> msg_value) list option)" where
  "rule_check rule d =
     (case condition_func rule d of (triggered, msg_dict) \<Rightarrow>
        if triggered then
          (if \<forall>k \<in> set (placeholders rule). k \<in> set (map fst msg_dict)
           then Inr (True, Some msg_dict) else Inl KeyError)
        else Inr (False, None))"

text \<open>
  \<^verbatim>\<open>_get_recommended_action\<close> (lines 217-228): a glossed action for each rule, and a
  default for an unknown rule.
\<close>

definition get_recommended_action :: "string \<Rightarrow> string" where
  "get_recommended_action rid =
     (if rid = ''data_quality_critical'' then ''clean the data and check the source''
      else if rid = ''too_many_outliers'' then ''check recent market events, remove outliers''
      else if rid = ''severe_drift'' then ''delete the stored model to force a retrain''
      else if rid = ''moderate_drift'' then ''monitor the model, retrain if MAPE rises''
      else if rid = ''high_volatility'' then ''check for market events''
      else if rid = ''model_performance_drop'' then ''clear the model cache to force a retrain''
      else if rid = ''consecutive_same_price'' then ''check the data source''
      else ''decide by hand'')"

text \<open>
  \<^verbatim>\<open>check_alerts\<close> (lines 184-215), on the list of rules and the list of stored
  alerts: the new alerts and the stored alerts after the call, or the exception together
  with the stored alerts at the moment it was raised.
\<close>

fun check_rules :: "alert_rule list \<Rightarrow> combined_data \<Rightarrow> real \<Rightarrow> alert list \<Rightarrow> alert list
    \<Rightarrow> (py_error + alert list) \<times> alert list" where
  "check_rules [] d now new_alerts stored = (Inr new_alerts, stored)"
| "check_rules (rule # rules) d now new_alerts stored =
     (case rule_check rule d of
        Inl e \<Rightarrow> (Inl e, stored)
      | Inr (triggered, msg) \<Rightarrow>
          if triggered then
            (let a = \<lparr>alert_id = (c_good_id d, rule_id rule, now), a_timestamp = now,
                       a_good_id = c_good_id d, alert_type = rule_id rule,
                       alert_level = rule_level rule, title = rule_title rule,
                       message = (case msg of None \<Rightarrow> [] | Some md \<Rightarrow> md),
                       a_metrics = d,
                       recommended_action = get_recommended_action (rule_id rule),
                       acknowledged = False, acknowledged_by = None, acknowledged_at = None\<rparr>
             in check_rules rules d now (new_alerts @ [a]) (stored @ [a]))
          else check_rules rules d now new_alerts stored)"

definition check_alerts :: "alert_rule list \<Rightarrow> alert list \<Rightarrow> int \<Rightarrow> quality_report \<Rightarrow> drift_report
    \<Rightarrow> metrics_dict \<Rightarrow> real \<Rightarrow> (py_error + alert list) \<times> alert list" where
  "check_alerts rules stored gid qr dr pm now =
     check_rules rules \<lparr>c_good_id = gid, c_quality = qr, c_drift = dr, c_metrics = pm\<rparr>
       now [] stored"

subsection \<open>Forecast error metrics\<close>

text \<open>
  The three scikit-learn metrics that \<^verbatim>\<open>_calculate_metrics\<close> (lines 496-510) calls, by
  their definitions. They raise ValueError on empty input or on inputs of different
  lengths; \<^verbatim>\<open>_calculate_metrics\<close> catches that and returns the empty dictionary. The
  percentage error is a fraction: 0.3 stands for 30 percent.
\<close>

definition mean_squared_error :: "real list \<Rightarrow> real list \<Rightarrow> real" where
  "mean_squared_error y_true y_pred = np_mean (map (\<lambda>(t, p). (t - p)\<^sup>2) (zip y_true y_pred))"

definition mean_absolute_error :: "real list \<Rightarrow> real list \<Rightarrow> real" where
  "mean_absolute_error y_true y_pred = np_mean (map (\<lambda>(t, p). \<bar>t - p\<bar>) (zip y_true y_pred))"

definition mean_absolute_percentage_error :: "real list \<Rightarrow> real list \<Rightarrow> real" where
  "mean_absolute_percentage_error y_true y_pred =
     np_mean (map (\<lambda>(t, p). \<bar>t - p\<bar> / max \<bar>t\<bar> (1 / 2 ^ 52)) (zip y_true y_pred))"

definition calculate_metrics :: "real list \<Rightarrow> real list \<Rightarrow> (real \<times> real \<times> real) option" where
  "calculate_metrics y_true y_pred =
     (if y_true = [] \<or> length y_true \<noteq> length y_pred then None
      else Some (mean_squared_error y_true y_pred, mean_absolute_error y_true y_pred,
                 mean_absolute_percentage_error y_true y_pred))"

text \<open>A quality report without findings, for examples.\<close>

definition clean_quality_report :: quality_report where
  "clean_quality_report = \<lparr>q_good_id = 1, q_timestamp = 0, total_points = 30,
     missing_values = 0, missing_ratio = 0, outlier_count = 0, outlier_ratio = 0,
     outlier_indices = [], price_mean = 100, price_std = 1, price_min = 98, price_max = 102,
     price_range = 4, price_cv = 0.01, volatility = Some 0.01, trend = ''stable'',
     trend_strength = 0, suspicious_days = 0, consecutive_same = 0,
     quality_score = 100, quality_level = ''good'', warnings = []\<rparr>"

text \<open>The penalties of a report other than the one for the number of points.\<close>

definition other_penalties :: "quality_report \<Rightarrow> real" where
  "other_penalties r =
     fst (penalty_missing (missing_ratio r)) + fst (penalty_outliers (outlier_ratio r))
     + fst (penalty_volatility (volatility r)) + fst (penalty_same (consecutive_same r))
     + fst (penalty_jumps (suspicious_days r) (total_points r))"

text \<open>Five hourly observations with slowly rising prices.\<close>

definition five_points :: "observation list" where
  "five_points = [obs 0 100, obs 3600 101, obs 7200 102, obs 10800 103, obs 14400 104]"

subsection \<open>Data cleaning\<close>

text \<open>\<^verbatim>\<open>DataCleaner\<close> (data_quality_monitor.py, lines 464-593), with its default arguments.\<close>

definition remove_outliers :: "observation list \<Rightarrow> observation list" where
  "remove_outliers df =
     (let ps = map sell_price df;
          Q1 = percentile ps 25;
          Q3 = percentile ps 75;
          IQR = Q3 - Q1;
          lower = Q1 - 1.5 * IQR;
          upper = Q3 + 1.5 * IQR
      in filter (\<lambda>r. sell_price r \<ge> lower \<and> sell_price r \<le> upper) df)"

text \<open>Forward fill and backward fill of one column.\<close>

fun ffill :: "'a option \<Rightarrow> 'a option list \<Rightarrow> 'a option list" where
  "ffill prev [] = []"
| "ffill prev (None # xs) = prev # ffill prev xs"
| "ffill prev (Some x # xs) = Some x # ffill (Some x) xs"

definition bfill :: "'a option list \<Rightarrow> 'a option list" where
  "bfill xs = rev (ffill None (rev xs))"

definition fill_missing :: "observation list \<Rightarrow> observation list" where
  "fill_missing df =
     (let bo = bfill (ffill None (map buy_orders df));
          so = bfill (ffill None (map sell_orders df))
      in map (\<lambda>(r, b, s). r\<lparr>buy_orders := b, sell_orders := s\<rparr>) (zip df (zip bo so)))"

text \<open>
  The loop of \<^verbatim>\<open>remove_consecutive_duplicates\<close>, carrying the running count and the
  last distinct price.
\<close>

fun drop_repeats :: "nat \<Rightarrow> nat \<Rightarrow> real option \<Rightarrow> observation list \<Rightarrow> observation list" where
  "drop_repeats mx cnt lastp [] = []"
| "drop_repeats mx cnt lastp (r # rs) =
     (if Some (sell_price r) = lastp then
        (if cnt + 1 > mx then drop_repeats mx (cnt + 1) lastp rs
         else r # drop_repeats mx (cnt + 1) lastp rs)
      else r # drop_repeats mx 0 (Some (sell_price r)) rs)"

definition remove_consecutive_duplicates :: "observation list \<Rightarrow> observation list" where
  "remove_consecutive_duplicates df = drop_repeats 10 0 None df"

definition clean_data :: "observation list \<Rightarrow> observation list" where
  "clean_data df = remove_consecutive_duplicates (fill_missing (remove_outliers df))"

subsection \<open>Training and persistence\<close>

text \<open>
  The forecasting libraries are opaque. Each of the three submodels is one parameter that
  says how fitting on the training rows and predicting the test rows ends: the fit raises,
  the prediction raises, or both return (the fitted state and one value for each test
  row). The feature table that \<^verbatim>\<open>prepare_features\<close> builds is read by the third
  estimator only and is part of that parameter.
\<close>

datatype 'h fit_outcome = Fit_raises | Predict_raises 'h | Fit_ok 'h "real list"

record 'h forecasters =
  run_lr :: "real list \<Rightarrow> nat \<Rightarrow> 'h fit_outcome"
  run_prophet :: "bool \<Rightarrow> observation list \<Rightarrow> observation list \<Rightarrow> 'h fit_outcome"
  run_xgb :: "observation list \<Rightarrow> observation list \<Rightarrow> 'h fit_outcome"

text \<open>
  How writing one file ends: the file is written, opening it fails (the old file stays),
  or the write fails after the file was opened for writing (the file is left truncated).
\<close>

datatype write_outcome = Write_ok | Open_fails | Dump_fails

datatype 'a disk_file = Written 'a | Truncated

text \<open>
  Everything outside the process that one request reads: the libraries, the clock
  (\<^verbatim>\<open>datetime.now()\<close>, the training time measured with \<^verbatim>\<open>time.time()\<close>, and the readings
  of \<^verbatim>\<open>time.time()\<close> in the cache), the outcome of each file write, and the database.
\<close>

record 'h env =
  e_lib :: np_lib
  e_corrcoef :: "real list \<Rightarrow> real list \<Rightarrow> real option"
  e_now :: real
  e_elapsed :: real
  e_forecasters :: "'h forecasters"
  e_model_write :: write_outcome
  e_metrics_write :: write_outcome
  e_alert_write :: write_outcome
  fetch_historical_data :: "int \<Rightarrow> nat \<Rightarrow> observation list option"
  e_latest_price :: "int \<Rightarrow> (real \<times> real) option"
  e_predict :: "'h prediction_model \<Rightarrow> bool"
  e_get_time :: real
  e_put_time :: real

text \<open>
  The state of the process and of its cache directory: the model and metrics files by
  item, the alerts held by \<^verbatim>\<open>ALERT_SYSTEM\<close>, the alert files, and the model cache.
\<close>

record 'h service_state =
  model_files :: "int \<Rightarrow> 'h prediction_model disk_file option"
  metrics_files :: "int \<Rightarrow> (metrics_dict \<times> weights_dict) disk_file option"
  stored_alerts :: "alert list"
  alert_files :: "alert list"
  CACHE_MANAGER :: "(int, 'h prediction_model) model_cache_manager"

text \<open>
  \<^verbatim>\<open>save_model\<close> (lines 407-431) and \<^verbatim>\<open>save_metrics\<close> (lines 481-494). Both catch every
  exception, log it and return nothing.
\<close>

definition save_model :: "'h env \<Rightarrow> 'h prediction_model \<Rightarrow> 'h service_state \<Rightarrow> 'h service_state" where
  "save_model env self st =
     (case e_model_write env of
        Write_ok \<Rightarrow> st\<lparr>model_files := (model_files st)(good_id self \<mapsto> Written self)\<rparr>
      | Open_fails \<Rightarrow> st
      | Dump_fails \<Rightarrow> st\<lparr>model_files := (model_files st)(good_id self \<mapsto> Truncated)\<rparr>)"

definition save_metrics :: "'h env \<Rightarrow> 'h prediction_model \<Rightarrow> 'h service_state \<Rightarrow> 'h service_state" where
  "save_metrics env self st =
     (case e_metrics_write env of
        Write_ok \<Rightarrow> st\<lparr>metrics_files :=
                      (metrics_files st)(good_id self \<mapsto> Written (metrics self, weights self))\<rparr>
      | Open_fails \<Rightarrow> st
      | Dump_fails \<Rightarrow> st\<lparr>metrics_files := (metrics_files st)(good_id self \<mapsto> Truncated)\<rparr>)"

text \<open>\<^verbatim>\<open>save_alerts\<close> (drift_alert_system.py, lines 230-242): one file for each alert.\<close>

definition save_alerts :: "'h env \<Rightarrow> alert list \<Rightarrow> 'h service_state \<Rightarrow> 'h service_state" where
  "save_alerts env alerts st =
     (case e_alert_write env of
        Write_ok \<Rightarrow> st\<lparr>alert_files := alert_files st @ alerts\<rparr>
      | Open_fails \<Rightarrow> st
      | Dump_fails \<Rightarrow> st)"

text \<open>\<^verbatim>\<open>detect_weekly_seasonality\<close> (lines 315-341); NaN and exceptions give 0.\<close>

definition detect_weekly_seasonality :: "'h env \<Rightarrow> observation list \<Rightarrow> real" where
  "detect_weekly_seasonality env df =
     (if length df < 14 then 0
      else let prices = map sell_price df
           in case e_corrcoef env (take (length prices - 7) prices) (drop 7 prices) of
                None \<Rightarrow> 0 | Some c \<Rightarrow> c)"

text \<open>The train and test rows of \<^verbatim>\<open>_full_retrain\<close> (lines 688-704).\<close>

definition split_train_test :: "'a list \<Rightarrow> 'a list \<times> 'a list" where
  "split_train_test df =
     (let n = length df
      in if n < 20 then
           (let split_point = nat (py_int (real n * 0.8)) in (take split_point df, drop split_point df))
         else (take (n - 14) df, take 7 (drop (n - 14) df)))"

text \<open>\<^verbatim>\<open>self.metrics.update(...)\<close> with the result of \<^verbatim>\<open>_calculate_metrics\<close>.\<close>

definition update_lr_metrics :: "(real \<times> real \<times> real) option \<Rightarrow> metrics_dict \<Rightarrow> metrics_dict" where
  "update_lr_metrics r ms =
     (case r of None \<Rightarrow> ms
      | Some (mse, mae, mape) \<Rightarrow> ms\<lparr>lr_mse := Some mse, lr_mae := Some mae, lr_mape := Some mape\<rparr>)"

definition update_prophet_metrics :: "(real \<times> real \<times> real) option \<Rightarrow> metrics_dict \<Rightarrow> metrics_dict" where
  "update_prophet_metrics r ms =
     (case r of None \<Rightarrow> ms
      | Some (mse, mae, mape) \<Rightarrow>
          ms\<lparr>prophet_mse := Some mse, prophet_mae := Some mae, prophet_mape := Some mape\<rparr>)"

definition update_xgb_metrics :: "(real \<times> real \<times> real) option \<Rightarrow> metrics_dict \<Rightarrow> metrics_dict" where
  "update_xgb_metrics r ms =
     (case r of None \<Rightarrow> ms
      | Some (mse, mae, mape) \<Rightarrow> ms\<lparr>xgb_mse := Some mse, xgb_mae := Some mae, xgb_mape := Some mape\<rparr>)"

definition update_ensemble_metrics :: "(real \<times> real \<times> real) option \<Rightarrow> metrics_dict \<Rightarrow> metrics_dict" where
  "update_ensemble_metrics r ms =
     (case r of None \<Rightarrow> ms
      | Some (mse, mae, mape) \<Rightarrow>
          ms\<lparr>ensemble_mse := Some mse, ensemble_mae := Some mae, ensemble_mape := Some mape\<rparr>)"

definition ensemble_prediction :: "weights_dict \<Rightarrow> real list \<Rightarrow> real list \<Rightarrow> real list \<Rightarrow> real list" where
  "ensemble_prediction w p_lr p_prophet p_xgb =
     map (\<lambda>(a, b, c). a * w_lr w + b * w_prophet w + c * w_xgb w) (zip p_lr (zip p_prophet p_xgb))"

text \<open>
  The last part of \<^verbatim>\<open>_full_retrain\<close> (lines 774-799), after the three submodels are
  fitted: weights, ensemble metrics, bookkeeping, and the two writes. It returns True
  whatever the writes do.
\<close>

definition finish_retrain :: "'h env \<Rightarrow> 'h prediction_model \<Rightarrow> real list \<Rightarrow> real list \<Rightarrow> real list
    \<Rightarrow> real list \<Rightarrow> drift_report \<Rightarrow> quality_report \<Rightarrow> 'h service_state
    \<Rightarrow> bool \<times> 'h prediction_model \<times> 'h service_state" where
  "finish_retrain env self y_test p_lr p_prophet p_xgb dr qr st =
     (let self1 = update_weights self;
          ensemble_pred = ensemble_prediction (weights self1) p_lr p_prophet p_xgb;
          ms = update_ensemble_metrics (calculate_metrics y_test ensemble_pred) (metrics self1);
          ms' = ms\<lparr>training_time := Some (e_elapsed env),
                   training_count := training_count ms + 1,
                   last_training := Some (e_now env),
                   training_strategy := Some ''full_retrain'',
                   m_quality_report := Some qr,
                   m_drift_report := Some dr\<rparr>;
          self2 = self1\<lparr>metrics := ms', feature_set := ''full''\<rparr>
      in (True, self2, save_metrics env self2 (save_model env self2 st)))"

text \<open>
  \<^verbatim>\<open>_full_retrain\<close> (lines 679-805). An exception anywhere returns False and keeps what
  was assigned to the model up to that point.
\<close>

definition full_retrain :: "'h env \<Rightarrow> 'h prediction_model \<Rightarrow> observation list \<Rightarrow> drift_report
    \<Rightarrow> quality_report \<Rightarrow> 'h service_state \<Rightarrow> bool \<times> 'h prediction_model \<times> 'h service_state" where
  "full_retrain env self df dr qr st =
     (if df = [] then (False, self, st)
      else
        let df_train = fst (split_train_test df);
            df_test = snd (split_train_test df);
            self1 = self\<lparr>train_size := length df_train,
                         last_price := Some (sell_price (last df)),
                         last_timestamp := Some (timestamp (last df))\<rparr>;
            y_test = map sell_price df_test;
            y_train = map sell_price df_train
        in case run_lr (e_forecasters env) y_train (length y_test) of
             Fit_raises \<Rightarrow> (False, self1\<lparr>lr := Some Unfitted\<rparr>, st)
           | Predict_raises h \<Rightarrow> (False, self1\<lparr>lr := Some (Fitted h)\<rparr>, st)
           | Fit_ok h_lr p_lr \<Rightarrow>
               let self2 = self1\<lparr>lr := Some (Fitted h_lr),
                                 metrics := update_lr_metrics (calculate_metrics y_test p_lr)
                                              (metrics self1)\<rparr>;
                   enable_weekly = (detect_weekly_seasonality env df_train > 0.3)
               in case run_prophet (e_forecasters env) enable_weekly df_train df_test of
                    Fit_raises \<Rightarrow> (False, self2\<lparr>prophet := Some Unfitted\<rparr>, st)
                  | Predict_raises h \<Rightarrow> (False, self2\<lparr>prophet := Some (Fitted h)\<rparr>, st)
                  | Fit_ok h_prophet p_prophet \<Rightarrow>
                      let self3 = self2\<lparr>prophet := Some (Fitted h_prophet),
                                        metrics := update_prophet_metrics
                                          (calculate_metrics y_test p_prophet) (metrics self2)\<rparr>
                      in case run_xgb (e_forecasters env) df_train df_test of
                           Fit_raises \<Rightarrow> (False, self3\<lparr>xgb := Some Unfitted\<rparr>, st)
                         | Predict_raises h \<Rightarrow> (False, self3\<lparr>xgb := Some (Fitted h)\<rparr>, st)
                         | Fit_ok h_xgb p_xgb \<Rightarrow>
                             let self4 = self3\<lparr>xgb := Some (Fitted h_xgb),
                                               metrics := update_xgb_metrics
                                                 (calculate_metrics y_test p_xgb) (metrics self3)\<rparr>
                             in finish_retrain env self4 y_test p_lr p_prophet p_xgb dr qr st)"

text \<open>\<^verbatim>\<open>_incremental_train\<close> (lines 807-811) calls the full retraining.\<close>

definition incremental_train :: "'h env \<Rightarrow> 'h prediction_model \<Rightarrow> observation list \<Rightarrow> drift_report
    \<Rightarrow> quality_report \<Rightarrow> 'h service_state \<Rightarrow> bool \<times> 'h prediction_model \<times> 'h service_state" where
  "incremental_train env self df dr qr st = full_retrain env self df dr qr st"

text \<open>
  The four guard conditions of \<^verbatim>\<open>train\<close> (lines 562-589). A sell-order count that is
  NaN is not below 90.
\<close>

definition too_short :: "observation list \<Rightarrow> bool" where
  "too_short df = (length df < 10)"

definition stale :: "'h env \<Rightarrow> observation list \<Rightarrow> bool" where
  "stale env df = (timestamp (last df) < e_now env - 24 * 3600)"

definition low_liquidity :: "observation list \<Rightarrow> bool" where
  "low_liquidity df = (case sell_orders (last df) of None \<Rightarrow> False | Some c \<Rightarrow> c < 90)"

definition stagnant :: "observation list \<Rightarrow> bool" where
  "stagnant df =
     (let recent = filter (\<lambda>r. timestamp r \<ge> np_max (map timestamp df) - 12 * 3600) df
      in length recent > 0 \<and> length (remdups (map sell_price recent)) = 1)"

text \<open>
  \<^verbatim>\<open>train\<close> (lines 558-642): whether it returned True, the model object afterwards, and
  the state afterwards.
\<close>

definition train :: "'h env \<Rightarrow> 'h prediction_model \<Rightarrow> observation list \<Rightarrow> 'h service_state
    \<Rightarrow> bool \<times> 'h prediction_model \<times> 'h service_state" where
  "train env self df st =
     (if too_short df then (False, self, st)
      else
        let self1 = self\<lparr>historical_df := Some df, historical_prices := Some (map sell_price df)\<rparr>
        in if stale env df then (False, self1, st)
           else if low_liquidity df then (False, self1, st)
           else
             case check_quality (e_lib env) QUALITY_CHECKER df (good_id self) (e_now env) of
               Inl e \<Rightarrow> (False, self1, st)
             | Inr qr \<Rightarrow>
                 if stagnant df then (False, self1, st)
                 else
                   let df_clean = clean_data df;
                       cleaned = (quality_level qr = ''critical'')
                   in if cleaned \<and> \<not> length df_clean \<ge> 10 then (False, self1, st)
                      else
                        let df2 = (if cleaned then df_clean else df);
                            self2 = (if cleaned
                                     then self1\<lparr>historical_df := Some df_clean,
                                                historical_prices := Some (map sell_price df_clean)\<rparr>
                                     else self1);
                            dr = (detect_drift (e_lib env) DRIFT_DETECTOR (map sell_price df2)
                                    (e_now env))\<lparr>d_good_id := good_id self\<rparr>
                        in case check_alerts setup_rules (stored_alerts st) (good_id self) qr dr
                                  (metrics self2) (e_now env) of
                             (Inl e, stored) \<Rightarrow> (False, self2, st\<lparr>stored_alerts := stored\<rparr>)
                           | (Inr alerts, stored) \<Rightarrow>
                               let st1 = st\<lparr>stored_alerts := stored\<rparr>;
                                   st2 = (if alerts = [] then st1 else save_alerts env alerts st1);
                                   training_strategy = decide_training_strategy self2 (e_now env) dr
                               in if training_strategy = ''skip'' then (True, self2, st2)
                                  else if training_strategy = ''incremental''
                                    then incremental_train env self2 df2 dr qr st2
                                  else full_retrain env self2 df2 dr qr st2)"

subsection \<open>Serving a prediction\<close>







subsection \<open>An example environment\<close>

text \<open>
  Ten hourly observations with slowly rising prices, the last one at the current time;
  the same ten observations two days earlier; estimators that always fit; a disk on which
  the model file cannot be opened for writing; an empty cache directory and cache.
\<close>

definition ten_points :: "real \<Rightarrow> observation list" where
  "ten_points t0 = map (\<lambda>i. obs (t0 + 3600 * real i) (100 + real i)) [0 ..< 10]"

definition example_forecasters :: "unit forecasters" where
  "example_forecasters = \<lparr>run_lr = (\<lambda>y n. Fit_ok () (replicate n 100)),
     run_prophet = (\<lambda>w tr te. Fit_ok () (replicate (length te) 100)),
     run_xgb = (\<lambda>tr te. Fit_ok () (replicate (length te) 100))\<rparr>"

definition example_env :: "unit env" where
  "example_env = \<lparr>e_lib = example_lib, e_corrcoef = (\<lambda>a b. None), e_now = 32400,
     e_elapsed = 1, e_forecasters = example_forecasters,
     e_model_write = Open_fails, e_metrics_write = Write_ok, e_alert_write = Write_ok,
     fetch_historical_data = (\<lambda>g d. Some (ten_points 0)),
     e_latest_price = (\<lambda>g. None), e_predict = (\<lambda>m. True),
     e_get_time = 1, e_put_time = 2\<rparr>"

definition empty_state :: "unit service_state" where
  "empty_state = \<lparr>model_files = Map.empty, metrics_files = Map.empty, stored_alerts = [],
     alert_files = [], CACHE_MANAGER = new_cache 500\<rparr>"


section \<open>Verified properties\<close>

subsection \<open>The model cache keeps its invariant\<close>



































subsection \<open>Ensemble weights\<close>

lemma inv_share_sum:
  fixes x y z :: real
  assumes "x + y + z \<noteq> 0"
  shows "x / (x + y + z) + y / (x + y + z) + z / (x + y + z) = 1"
  using assms by (simp add: add_divide_distrib [symmetric])

lemma mape_or_default_pos: "positive_or_missing v \<Longrightarrow> 0 < mape_or_default v"
  by (auto simp: positive_or_missing_def mape_or_default_def split: option.splits)

subsection \<open>Slices\<close>



subsection \<open>Quality check\<close>

lemma detect_outliers_empty: "detect_outliers self [] = Inl ZeroDivisionError"
  by (simp add: detect_outliers_def detect_outliers_iqr_def detect_outliers_zscore_def)

lemma detect_outliers_nonempty:
  "prices \<noteq> [] \<Longrightarrow> \<exists>oi orat. detect_outliers self prices = Inr (oi, orat)"
  by (simp add: detect_outliers_def detect_outliers_iqr_def detect_outliers_zscore_def Let_def)

lemma calculate_trend_Inl:
  "polyfit lib (map real [0 ..< length prices]) prices = Inl e \<Longrightarrow> calculate_trend lib prices = Inl e"
  by (simp add: calculate_trend_def Let_def)

lemma calculate_trend_Inr:
  "polyfit lib (map real [0 ..< length prices]) prices = Inr fit
     \<Longrightarrow> \<exists>tr st. calculate_trend lib prices = Inr (tr, st)"
  by (cases fit) (simp add: calculate_trend_def Let_def)

lemma check_quality_Inl_outliers:
  "detect_outliers self (map sell_price df) = Inl e \<Longrightarrow> check_quality lib self df gid now = Inl e"
  by (simp add: check_quality_def Let_def)

lemma check_quality_Inl_trend:
  "detect_outliers self (map sell_price df) = Inr oo \<Longrightarrow> calculate_trend lib (map sell_price df) = Inl e
    \<Longrightarrow> check_quality lib self df gid now = Inl e"
  by (cases oo) (simp add: check_quality_def Let_def)

lemma check_quality_Inr:
  assumes "detect_outliers self (map sell_price df) = Inr (oi, orat)"
    and "calculate_trend lib (map sell_price df) = Inr (tr, st)"
  shows "\<exists>r. check_quality lib self df gid now = Inr r
     \<and> total_points r = length df
     \<and> outlier_ratio r = orat
     \<and> missing_ratio r = real (count_missing df) / real (length df * 5)
     \<and> volatility r = volatility_of (map sell_price df)
     \<and> consecutive_same r = count_consecutive_same (map sell_price df)
     \<and> suspicious_days r = count_suspicious (map sell_price df)
     \<and> quality_score r
         = max 0 (min 100 (100 - (other_penalties r + fst (penalty_points (length df)))))
     \<and> quality_level r = level_of (quality_score r)"
  using assms by (simp add: check_quality_def Let_def other_penalties_def)

lemma penalties_nonneg:
  "0 \<le> fst (penalty_missing a)" "0 \<le> fst (penalty_outliers b)" "0 \<le> fst (penalty_volatility c)"
  "0 \<le> fst (penalty_same d)" "0 \<le> fst (penalty_jumps e f)" "0 \<le> fst (penalty_points g)"
  by (simp_all add: penalty_missing_def penalty_outliers_def penalty_volatility_def
        penalty_same_def penalty_jumps_def penalty_points_def)

lemma other_penalties_nonneg: "0 \<le> other_penalties r"
  unfolding other_penalties_def by (intro add_nonneg_nonneg penalties_nonneg)

lemma sqrt_gt_iff: "0 \<le> c \<Longrightarrow> c < sqrt x \<longleftrightarrow> c\<^sup>2 < x"
proof -
  assume c: "0 \<le> c"
  then have "c = sqrt (c\<^sup>2)" by simp
  then have "c < sqrt x \<longleftrightarrow> sqrt (c\<^sup>2) < sqrt x" by simp
  also have "\<dots> \<longleftrightarrow> c\<^sup>2 < x" by (rule real_sqrt_less_iff)
  finally show ?thesis .
qed

lemma five_prices: "map sell_price five_points = [100, 101, 102, 103, 104]"
  by (simp add: five_points_def obs_def)

lemma five_outliers: "detect_outliers QUALITY_CHECKER [100, 101, 102, 103, 104] = Inr ([], 0)"
  by (simp add: detect_outliers_def detect_outliers_iqr_def QUALITY_CHECKER_def percentile_def
        np_where_def Let_def upt_rec)

lemma five_fit:
  "polyfit example_lib (map real [0 ..< length [100, 101, 102, 103, 104 :: real]])
     [100, 101, 102, 103, 104] = Inr (1, 100)"
  by (simp add: example_lib_def ols_fit_def np_mean_def upt_rec power2_eq_square)

lemma five_volatility: "\<not> nan_gt (volatility_of [100, 101, 102, 103, 104]) 0.05"
proof -
  have v: "volatility_of [100, 101, 102, 103, 104]
      = Some (sqrt (176892209 / 15012612576480000))"
    by (simp add: volatility_of_def np_std_def np_var_def np_mean_def power2_eq_square)
  have "\<not> (5 / 100 < sqrt (176892209 / 15012612576480000 :: real))"
    using sqrt_gt_iff [of "5 / 100" "176892209 / 15012612576480000"]
    by (simp add: power2_eq_square)
  then show ?thesis by (simp add: v nan_gt_def)
qed

lemma five_counts:
  "count_suspicious [100, 101, 102, 103, 104] = 0"
  "count_consecutive_same [100, 101, 102, 103, 104] = 0"
  "count_missing five_points = 0"
  by (simp_all add: count_suspicious_def count_consecutive_same_def is_jump_def count_missing_def
        five_points_def obs_def)

lemma five_points_report:
  "\<exists>r. check_quality example_lib QUALITY_CHECKER five_points 1 0 = Inr r
      \<and> total_points r = 5 \<and> quality_score r = 80 \<and> quality_level r = ''good''"
proof -
  have t: "\<exists>tr st. calculate_trend example_lib (map sell_price five_points) = Inr (tr, st)"
    by (rule calculate_trend_Inr [where fit = "(1, 100)"]) (simp only: five_prices five_fit)
  then obtain tr st where t: "calculate_trend example_lib (map sell_price five_points) = Inr (tr, st)"
    by auto
  have d: "detect_outliers QUALITY_CHECKER (map sell_price five_points) = Inr ([], 0)"
    by (simp add: five_prices five_outliers)
  from check_quality_Inr [OF d t, of 1 0]
  obtain r where r: "check_quality example_lib QUALITY_CHECKER five_points 1 0 = Inr r"
    "total_points r = length five_points" "outlier_ratio r = 0"
    "missing_ratio r = real (count_missing five_points) / real (length five_points * 5)"
    "volatility r = volatility_of (map sell_price five_points)"
    "consecutive_same r = count_consecutive_same (map sell_price five_points)"
    "suspicious_days r = count_suspicious (map sell_price five_points)"
    "quality_score r = max 0 (min 100 (100 - (other_penalties r + fst (penalty_points (length five_points)))))"
    "quality_level r = level_of (quality_score r)"
    by (elim exE conjE)
  have len: "length five_points = 5" by (simp add: five_points_def)
  have "other_penalties r = 0"
    unfolding other_penalties_def r(2-7) five_prices five_counts len
    using five_volatility
    by (simp add: penalty_missing_def penalty_outliers_def penalty_volatility_def
          penalty_same_def penalty_jumps_def)
  then have "quality_score r = 80" by (simp add: r(8) len penalty_points_def)
  with r(1,2,9) len show ?thesis by (auto simp: level_of_def)
qed

subsection \<open>Training\<close>

lemma train_too_short: "too_short df \<Longrightarrow> train env self df st = (False, self, st)"
  by (simp add: train_def)

lemma train_stale:
  "\<not> too_short df \<Longrightarrow> stale env df \<Longrightarrow>
     train env self df st
       = (False, self\<lparr>historical_df := Some df, historical_prices := Some (map sell_price df)\<rparr>, st)"
  by (simp add: train_def Let_def)

lemma train_low_liquidity:
  "\<not> too_short df \<Longrightarrow> low_liquidity df \<Longrightarrow>
     train env self df st
       = (False, self\<lparr>historical_df := Some df, historical_prices := Some (map sell_price df)\<rparr>, st)"
  by (simp add: train_def Let_def)

lemma train_stagnant:
  "\<not> too_short df \<Longrightarrow> stagnant df \<Longrightarrow>
     train env self df st
       = (False, self\<lparr>historical_df := Some df, historical_prices := Some (map sell_price df)\<rparr>, st)"
  by (simp add: train_def Let_def split: sum.splits)


lemma length_ten_points: "length (ten_points t0) = 10"
  by (simp add: ten_points_def)

lemma last_ten_points: "last (ten_points t0) = obs (t0 + 32400) 109"
  by (simp add: ten_points_def last_map)

lemma ten_points_stale: "stale example_env (ten_points (- 172800))"
  by (simp add: stale_def last_ten_points obs_def example_env_def)

lemma ten_points_not_short: "\<not> too_short (ten_points t0)"
  by (simp add: too_short_def length_ten_points)





































subsection \<open>The stated properties\<close>

text \<open>
  C3. The training strategy is the priority-ordered decision table over (existing
  submodels, model age in days, drift level, KS statistic): the code's answer is the
  outcome of the first rule of the table that matches. In particular a model with all
  submodels, aged 10 days, under drift level none, is retrained in full.
\<close>

theorem decide_training_strategy_table:
  "map_option strategy_name
     (first_match (decision_rules (has_submodels m) (model_age_days m now)
        (drift_level dr) (ks_statistic dr)))
     = Some (decide_training_strategy m now dr)
   \<and> (has_submodels m \<and> model_age_days m now = 10 \<and> drift_level dr = ''none''
        \<longrightarrow> decide_training_strategy m now dr = ''full'')"
  by (simp add: decide_training_strategy_def decision_rules_def has_submodels_def Let_def)

theorem decide_training_strategy_table_witness:
  "has_submodels trained_model \<and> model_age_days trained_model 864000 = 10
   \<and> drift_level (zero_drift_report 864000) = ''none''
   \<and> decide_training_strategy trained_model 864000 (zero_drift_report 864000) = ''full''"
proof -
  have h: "has_submodels trained_model \<and> model_age_days trained_model 864000 = 10
      \<and> drift_level (zero_drift_report 864000) = ''none''"
    by (simp add: has_submodels_def model_age_days_def trained_model_def init_model_def
          zero_drift_report_def)
  from decide_training_strategy_table [of trained_model 864000 "zero_drift_report 864000"] h
  show ?thesis by blast
qed






text \<open>
  C5. For validation errors that are each a positive number or missing (a missing one
  counts as 1.0), the stored ensemble weights are
  \<open>weight_i = (1 / (mape_i + 0.001)) / (\<Sum>j. 1 / (mape_j + 0.001))\<close> and add up to 1, hence
  to 1 within \<open>10\<^sup>-\<^sup>6\<close>. When the sum of the inverse errors is not positive, or a
  denominator is zero, the weights are the fixed prior 0.2, 0.3, 0.5, which adds up to 1 too.
\<close>

theorem update_weights_normalised:
  "(let ms = metrics m;
        a = mape_or_default (lr_mape ms);
        b = mape_or_default (prophet_mape ms);
        c = mape_or_default (xgb_mape ms);
        total_inv = 1 / (a + 0.001) + 1 / (b + 0.001) + 1 / (c + 0.001);
        w = weights (update_weights m)
    in (positive_or_missing (lr_mape ms) \<and> positive_or_missing (prophet_mape ms)
          \<and> positive_or_missing (xgb_mape ms) \<longrightarrow>
            w_lr w = (1 / (a + 0.001)) / total_inv
          \<and> w_prophet w = (1 / (b + 0.001)) / total_inv
          \<and> w_xgb w = (1 / (c + 0.001)) / total_inv
          \<and> w_lr w + w_prophet w + w_xgb w = 1
          \<and> \<bar>w_lr w + w_prophet w + w_xgb w - 1\<bar> \<le> 1 / 1000000)
     \<and> (lr_mape ms = None \<longrightarrow> a = 1)
     \<and> (prophet_mape ms = None \<longrightarrow> b = 1)
     \<and> (xgb_mape ms = None \<longrightarrow> c = 1)
     \<and> (\<forall>x > 0. lr_mape ms = Some x \<longrightarrow> a = x)
     \<and> (\<forall>x > 0. prophet_mape ms = Some x \<longrightarrow> b = x)
     \<and> (\<forall>x > 0. xgb_mape ms = Some x \<longrightarrow> c = x)
     \<and> (a + 0.001 = 0 \<or> b + 0.001 = 0 \<or> c + 0.001 = 0 \<or> total_inv \<le> 0 \<longrightarrow>
            w = \<lparr>w_lr = 0.2, w_prophet = 0.3, w_xgb = 0.5\<rparr>)
     \<and> w_lr default_weights + w_prophet default_weights + w_xgb default_weights = 1
     \<and> default_weights = \<lparr>w_lr = 0.2, w_prophet = 0.3, w_xgb = 0.5\<rparr>)"
proof -
  define a where "a = mape_or_default (lr_mape (metrics m))"
  define b where "b = mape_or_default (prophet_mape (metrics m))"
  define c where "c = mape_or_default (xgb_mape (metrics m))"
  define total_inv where "total_inv = 1 / (a + 0.001) + 1 / (b + 0.001) + 1 / (c + 0.001)"
  define w where "w = weights (update_weights m)"
  have w_pos: "w = \<lparr>w_lr = (1 / (a + 0.001)) / total_inv,
                  w_prophet = (1 / (b + 0.001)) / total_inv,
                  w_xgb = (1 / (c + 0.001)) / total_inv\<rparr>"
    if "a + 0.001 \<noteq> 0" "b + 0.001 \<noteq> 0" "c + 0.001 \<noteq> 0" "total_inv > 0"
    using that unfolding w_def update_weights_def Let_def total_inv_def a_def b_def c_def
    by simp
  have w_neg: "w = \<lparr>w_lr = 0.2, w_prophet = 0.3, w_xgb = 0.5\<rparr>"
    if "a + 0.001 = 0 \<or> b + 0.001 = 0 \<or> c + 0.001 = 0 \<or> total_inv \<le> 0"
    using that unfolding w_def update_weights_def Let_def total_inv_def a_def b_def c_def
    by auto
  have main: "w_lr w = (1 / (a + 0.001)) / total_inv
          \<and> w_prophet w = (1 / (b + 0.001)) / total_inv
          \<and> w_xgb w = (1 / (c + 0.001)) / total_inv
          \<and> w_lr w + w_prophet w + w_xgb w = 1
          \<and> \<bar>w_lr w + w_prophet w + w_xgb w - 1\<bar> \<le> 1 / 1000000"
    if p: "positive_or_missing (lr_mape (metrics m))" "positive_or_missing (prophet_mape (metrics m))"
       "positive_or_missing (xgb_mape (metrics m))"
  proof -
    from p have pos: "0 < a" "0 < b" "0 < c"
      by (simp_all add: a_def b_def c_def mape_or_default_pos)
    then have ne: "a + 0.001 \<noteq> 0" "b + 0.001 \<noteq> 0" "c + 0.001 \<noteq> 0" by simp_all
    from pos have ipos: "0 < 1 / (a + 0.001)" "0 < 1 / (b + 0.001)" "0 < 1 / (c + 0.001)"
      by simp_all
    then have tpos: "total_inv > 0" unfolding total_inv_def by linarith
    note weq = w_pos [OF ne tpos]
    have sum1: "w_lr w + w_prophet w + w_xgb w = 1"
      using tpos inv_share_sum [of "1 / (a + 0.001)" "1 / (b + 0.001)" "1 / (c + 0.001)"]
      by (simp add: weq total_inv_def)
    then have "\<bar>w_lr w + w_prophet w + w_xgb w - 1\<bar> \<le> 1 / 1000000" by simp
    with sum1 show ?thesis by (simp add: weq)
  qed
  have dflt: "(lr_mape (metrics m) = None \<longrightarrow> a = 1)" "(prophet_mape (metrics m) = None \<longrightarrow> b = 1)"
      "(xgb_mape (metrics m) = None \<longrightarrow> c = 1)"
      "(\<forall>x > 0. lr_mape (metrics m) = Some x \<longrightarrow> a = x)"
      "(\<forall>x > 0. prophet_mape (metrics m) = Some x \<longrightarrow> b = x)"
      "(\<forall>x > 0. xgb_mape (metrics m) = Some x \<longrightarrow> c = x)"
    by (auto simp: a_def b_def c_def mape_or_default_def)
  have prior: "w_lr default_weights + w_prophet default_weights + w_xgb default_weights = 1"
     "default_weights = \<lparr>w_lr = 0.2, w_prophet = 0.3, w_xgb = 0.5\<rparr>"
    by (simp_all add: default_weights_def)
  show ?thesis
    unfolding Let_def a_def [symmetric] b_def [symmetric] c_def [symmetric]
      total_inv_def [symmetric] w_def [symmetric]
    using main w_neg dflt prior by (intro conjI impI) simp_all
qed


theorem update_weights_normalised_witness:
  "positive_or_missing (lr_mape (metrics (with_mapes (Some (1/10)) None (Some (1/5)))))
   \<and> positive_or_missing (prophet_mape (metrics (with_mapes (Some (1/10)) None (Some (1/5)))))
   \<and> positive_or_missing (xgb_mape (metrics (with_mapes (Some (1/10)) None (Some (1/5)))))
   \<and> w_lr (weights (update_weights (with_mapes (Some (1/10)) None (Some (1/5)))))
       + w_prophet (weights (update_weights (with_mapes (Some (1/10)) None (Some (1/5)))))
       + w_xgb (weights (update_weights (with_mapes (Some (1/10)) None (Some (1/5))))) = 1"
proof -
  let ?m = "with_mapes (Some (1/10)) None (Some (1/5))"
  have h: "positive_or_missing (lr_mape (metrics ?m))
      \<and> positive_or_missing (prophet_mape (metrics ?m))
      \<and> positive_or_missing (xgb_mape (metrics ?m))"
    by (simp add: with_mapes_def positive_or_missing_def)
  note t = update_weights_normalised [of ?m, unfolded Let_def]
  from t have imp: "positive_or_missing (lr_mape (metrics ?m))
      \<and> positive_or_missing (prophet_mape (metrics ?m))
      \<and> positive_or_missing (xgb_mape (metrics ?m)) \<longrightarrow>
        w_lr (weights (update_weights ?m)) =
          (1 / (mape_or_default (lr_mape (metrics ?m)) + 0.001)) /
          (1 / (mape_or_default (lr_mape (metrics ?m)) + 0.001)
           + 1 / (mape_or_default (prophet_mape (metrics ?m)) + 0.001)
           + 1 / (mape_or_default (xgb_mape (metrics ?m)) + 0.001))
      \<and> w_prophet (weights (update_weights ?m)) =
          (1 / (mape_or_default (prophet_mape (metrics ?m)) + 0.001)) /
          (1 / (mape_or_default (lr_mape (metrics ?m)) + 0.001)
           + 1 / (mape_or_default (prophet_mape (metrics ?m)) + 0.001)
           + 1 / (mape_or_default (xgb_mape (metrics ?m)) + 0.001))
      \<and> w_xgb (weights (update_weights ?m)) =
          (1 / (mape_or_default (xgb_mape (metrics ?m)) + 0.001)) /
          (1 / (mape_or_default (lr_mape (metrics ?m)) + 0.001)
           + 1 / (mape_or_default (prophet_mape (metrics ?m)) + 0.001)
           + 1 / (mape_or_default (xgb_mape (metrics ?m)) + 0.001))
      \<and> w_lr (weights (update_weights ?m)) + w_prophet (weights (update_weights ?m))
          + w_xgb (weights (update_weights ?m)) = 1
      \<and> \<bar>w_lr (weights (update_weights ?m)) + w_prophet (weights (update_weights ?m))
          + w_xgb (weights (update_weights ?m)) - 1\<bar> \<le> 1 / 1000000"
    by (rule conjunct1)
  from mp [OF imp h] have "w_lr (weights (update_weights ?m)) + w_prophet (weights (update_weights ?m))
          + w_xgb (weights (update_weights ?m)) = 1"
    by (elim conjE)
  with h show ?thesis by (intro conjI) (elim conjE, assumption)+
qed



text \<open>
  C7. The metric step stores the percentage error as a fraction: a forecast of 70 for an
  actual price of 100 is stored as 0.3, that is 30 percent. The rule for a drop of model
  performance compares the stored value with 25. On combined data that holds the ensemble
  error 0.3, and nothing else of note, the alert engine returns no alert at all.
\<close>

theorem model_performance_drop_not_raised:
  "calculate_metrics [100] [70] = Some (900, 30, 3 / 10)
   \<and> fst (check_alerts setup_rules [] 1 clean_quality_report (zero_drift_report 0)
        (init_metrics\<lparr>ensemble_mape := Some (3 / 10)\<rparr>) 0) = Inr []"
  by (simp add: calculate_metrics_def mean_squared_error_def mean_absolute_error_def
        mean_absolute_percentage_error_def np_mean_def check_alerts_def setup_rules_def
        rule_check_def clean_quality_report_def zero_drift_report_def init_metrics_def
        rule_data_quality_critical_def rule_too_many_outliers_def rule_severe_drift_def
        rule_moderate_drift_def rule_high_volatility_def rule_model_performance_drop_def
        rule_consecutive_same_price_def)

text \<open>
  C4 (as amended). On the empty series the quality check raises (a division by the
  length 0). On every non-empty series it returns a report exactly when the library's
  least-squares fit returns, and an exception of the fit is passed on. A returned report
  counts all points, its score lies between 0 and 100, and its level follows from the
  score.
\<close>

theorem check_quality_returns:
  "(df = [] \<longrightarrow> check_quality lib self df gid now = Inl ZeroDivisionError)
   \<and> (df \<noteq> [] \<longrightarrow>
        (case polyfit lib (map real [0 ..< length df]) (map sell_price df) of
           Inl e \<Rightarrow> check_quality lib self df gid now = Inl e
         | Inr fit \<Rightarrow>
             (\<exists>r. check_quality lib self df gid now = Inr r
                \<and> total_points r = length df
                \<and> 0 \<le> quality_score r \<and> quality_score r \<le> 100
                \<and> quality_level r = level_of (quality_score r))))"
proof (intro conjI impI)
  assume "df = []"
  then show "check_quality lib self df gid now = Inl ZeroDivisionError"
    by (simp add: check_quality_Inl_outliers detect_outliers_empty)
next
  assume ne: "df \<noteq> []"
  then obtain oi orat where d: "detect_outliers self (map sell_price df) = Inr (oi, orat)"
    using detect_outliers_nonempty [of "map sell_price df" self] by auto
  show "case polyfit lib (map real [0 ..< length df]) (map sell_price df) of
           Inl e \<Rightarrow> check_quality lib self df gid now = Inl e
         | Inr fit \<Rightarrow>
             (\<exists>r. check_quality lib self df gid now = Inr r
                \<and> total_points r = length df
                \<and> 0 \<le> quality_score r \<and> quality_score r \<le> 100
                \<and> quality_level r = level_of (quality_score r))"
  proof (cases "polyfit lib (map real [0 ..< length df]) (map sell_price df)")
    case (Inl e)
    then have "calculate_trend lib (map sell_price df) = Inl e"
      using calculate_trend_Inl [of lib "map sell_price df" e] by simp
    with d Inl show ?thesis by (simp add: check_quality_Inl_trend)
  next
    case (Inr fit)
    then obtain tr st where t: "calculate_trend lib (map sell_price df) = Inr (tr, st)"
      using calculate_trend_Inr [of lib "map sell_price df" fit] by auto
    from check_quality_Inr [OF d t, of gid now]
    obtain r where r: "check_quality lib self df gid now = Inr r" "total_points r = length df"
      "quality_score r = max 0 (min 100 (100 - (other_penalties r + fst (penalty_points (length df)))))"
      "quality_level r = level_of (quality_score r)"
      by (elim exE conjE)
    from r(3) have "0 \<le> quality_score r \<and> quality_score r \<le> 100" by simp
    with r Inr show ?thesis by simp
  qed
qed

theorem check_quality_returns_witness:
  "five_points \<noteq> []
   \<and> (\<exists>r. check_quality example_lib QUALITY_CHECKER five_points 1 0 = Inr r
          \<and> total_points r = length five_points
          \<and> 0 \<le> quality_score r \<and> quality_score r \<le> 100)"
proof -
  have h: "five_points \<noteq> []" by (simp add: five_points_def)
  have f: "polyfit example_lib (map real [0 ..< length five_points]) (map sell_price five_points)
      = Inr (1, 100)"
    by (simp add: five_points_def obs_def example_lib_def ols_fit_def np_mean_def upt_rec
          power2_eq_square)
  from check_quality_returns [where df = five_points and lib = example_lib
      and self = QUALITY_CHECKER and gid = 1 and now = 0] h
  have "case polyfit example_lib (map real [0 ..< length five_points]) (map sell_price five_points) of
           Inl e \<Rightarrow> check_quality example_lib QUALITY_CHECKER five_points 1 0 = Inl e
         | Inr fit \<Rightarrow>
             (\<exists>r. check_quality example_lib QUALITY_CHECKER five_points 1 0 = Inr r
                \<and> total_points r = length five_points
                \<and> 0 \<le> quality_score r \<and> quality_score r \<le> 100
                \<and> quality_level r = level_of (quality_score r))"
    by blast
  then obtain r where "check_quality example_lib QUALITY_CHECKER five_points 1 0 = Inr r"
    "total_points r = length five_points" "0 \<le> quality_score r" "quality_score r \<le> 100"
    unfolding f by auto
  with h show ?thesis by blast
qed

theorem check_quality_empty_counterexample:
  "check_quality example_lib QUALITY_CHECKER [] 1 0 = Inl ZeroDivisionError"
  by (simp add: check_quality_Inl_outliers detect_outliers_empty)

text \<open>
  C8 (as amended). For every series of exactly 5 points on which the library's
  least-squares fit returns, the quality check returns a report with 5 total points, whose
  score is 100 minus the other penalties minus the penalty of 20 for fewer than 10 points,
  clamped to the range from 0 to 100, hence at most 80. The level is good when the score
  is exactly 80 (no other penalty applies), warning from 60 up to 80, and critical only
  below 60.
\<close>

theorem check_quality_five_points:
  "length df = 5 \<and> polyfit lib (map real [0 ..< 5]) (map sell_price df) = Inr fit \<longrightarrow>
     (\<exists>r. check_quality lib self df gid now = Inr r
        \<and> total_points r = 5
        \<and> quality_score r =
            max 0 (min 100 (100
              - (fst (penalty_missing (missing_ratio r)) + fst (penalty_outliers (outlier_ratio r))
                 + fst (penalty_volatility (volatility r)) + fst (penalty_same (consecutive_same r))
                 + fst (penalty_jumps (suspicious_days r) 5))
              - 20))
        \<and> quality_score r \<le> 80
        \<and> (quality_level r = ''good'' \<longleftrightarrow> quality_score r = 80)
        \<and> (quality_level r = ''warning'' \<longleftrightarrow> 60 \<le> quality_score r \<and> quality_score r < 80)
        \<and> (quality_level r = ''critical'' \<longleftrightarrow> quality_score r < 60))"
proof (intro impI, elim conjE)
  assume len: "length df = 5"
    and fit: "polyfit lib (map real [0 ..< 5]) (map sell_price df) = Inr fit"
  from len have ne: "map sell_price df \<noteq> []" by auto
  then obtain oi orat where d: "detect_outliers self (map sell_price df) = Inr (oi, orat)"
    using detect_outliers_nonempty [of "map sell_price df" self] by auto
  from fit len have "polyfit lib (map real [0 ..< length (map sell_price df)]) (map sell_price df) = Inr fit"
    by simp
  then obtain tr st where t: "calculate_trend lib (map sell_price df) = Inr (tr, st)"
    using calculate_trend_Inr [of lib "map sell_price df" fit] by blast
  from check_quality_Inr [OF d t, of gid now]
  obtain r where r: "check_quality lib self df gid now = Inr r" "total_points r = length df"
    "quality_score r = max 0 (min 100 (100 - (other_penalties r + fst (penalty_points (length df)))))"
    "quality_level r = level_of (quality_score r)"
    by (elim exE conjE)
  have pp: "fst (penalty_points (length df)) = 20" by (simp add: len penalty_points_def)
  have tp: "total_points r = 5" using r(2) len by simp
  have sc: "quality_score r = max 0 (min 100 (100 - other_penalties r - 20))"
    using r(3) pp by (simp add: algebra_simps)
  have le: "quality_score r \<le> 80"
    using other_penalties_nonneg [of r] unfolding sc by simp
  have lv: "quality_level r = ''good'' \<longleftrightarrow> quality_score r = 80"
    "quality_level r = ''warning'' \<longleftrightarrow> 60 \<le> quality_score r \<and> quality_score r < 80"
    "quality_level r = ''critical'' \<longleftrightarrow> quality_score r < 60"
    using le by (auto simp: r(4) level_of_def)
  from r(1) tp sc le lv show "\<exists>r. check_quality lib self df gid now = Inr r
        \<and> total_points r = 5
        \<and> quality_score r =
            max 0 (min 100 (100
              - (fst (penalty_missing (missing_ratio r)) + fst (penalty_outliers (outlier_ratio r))
                 + fst (penalty_volatility (volatility r)) + fst (penalty_same (consecutive_same r))
                 + fst (penalty_jumps (suspicious_days r) 5))
              - 20))
        \<and> quality_score r \<le> 80
        \<and> (quality_level r = ''good'' \<longleftrightarrow> quality_score r = 80)
        \<and> (quality_level r = ''warning'' \<longleftrightarrow> 60 \<le> quality_score r \<and> quality_score r < 80)
        \<and> (quality_level r = ''critical'' \<longleftrightarrow> quality_score r < 60)"
    unfolding other_penalties_def by (intro exI [of _ r] conjI) simp_all
qed

theorem check_quality_five_points_witness:
  "length five_points = 5
   \<and> polyfit example_lib (map real [0 ..< 5]) (map sell_price five_points) = Inr (1, 100)
   \<and> (\<exists>r. check_quality example_lib QUALITY_CHECKER five_points 1 0 = Inr r
          \<and> total_points r = 5 \<and> quality_score r \<le> 80)"
proof -
  have h1: "length five_points = 5" by (simp add: five_points_def)
  have h2: "polyfit example_lib (map real [0 ..< 5]) (map sell_price five_points) = Inr (1, 100)"
    by (simp add: five_prices example_lib_def ols_fit_def np_mean_def upt_rec power2_eq_square)
  from check_quality_five_points [where df = five_points and lib = example_lib
      and fit = "(1, 100)" and self = QUALITY_CHECKER and gid = 1 and now = 0] h1 h2
  obtain r where "check_quality example_lib QUALITY_CHECKER five_points 1 0 = Inr r"
    "total_points r = 5" "quality_score r \<le> 80"
    by blast
  with h1 h2 show ?thesis by blast
qed

theorem check_quality_five_points_counterexample:
  "\<not> isl (check_quality example_lib QUALITY_CHECKER five_points 1 0)
   \<and> length five_points = 5
   \<and> quality_score (projr (check_quality example_lib QUALITY_CHECKER five_points 1 0)) = 80
   \<and> quality_level (projr (check_quality example_lib QUALITY_CHECKER five_points 1 0)) = ''good''
   \<and> quality_level (projr (check_quality example_lib QUALITY_CHECKER five_points 1 0)) \<noteq> ''critical''"
proof -
  from five_points_report obtain r where
    "check_quality example_lib QUALITY_CHECKER five_points 1 0 = Inr r"
    "quality_score r = 80" "quality_level r = ''good''" by auto
  then show ?thesis by (simp add: five_points_def)
qed

text \<open>
  C2 (as amended). When any guard of train fails (fewer than 10 points, last observation
  older than 24 hours, latest sell-order count below 90, or one single price over the last
  12 hours), train returns False and the stored alerts, the files and the cache are
  unchanged. A series that is too short leaves the model object unchanged as well; after
  each of the other three failures the model differs from the one before in two fields
  only: the stored history table and the stored price history, which hold the input
  series.
\<close>

theorem train_guard_failure:
  "too_short df \<or> stale env df \<or> low_liquidity df \<or> stagnant df \<longrightarrow>
     fst (train env self df st) = False
   \<and> snd (snd (train env self df st)) = st
   \<and> fst (snd (train env self df st)) =
       (if too_short df then self
        else self\<lparr>historical_df := Some df, historical_prices := Some (map sell_price df)\<rparr>)"
proof (cases "too_short df")
  case True
  then show ?thesis by (simp add: train_too_short)
next
  case False
  show ?thesis
  proof
    assume "too_short df \<or> stale env df \<or> low_liquidity df \<or> stagnant df"
    with False consider "stale env df" | "low_liquidity df" | "stagnant df" by blast
    then have "train env self df st
       = (False, self\<lparr>historical_df := Some df, historical_prices := Some (map sell_price df)\<rparr>, st)"
      using False by cases (rule train_stale train_low_liquidity train_stagnant; assumption)+
    with False show "fst (train env self df st) = False
      \<and> snd (snd (train env self df st)) = st
      \<and> fst (snd (train env self df st)) =
          (if too_short df then self
           else self\<lparr>historical_df := Some df, historical_prices := Some (map sell_price df)\<rparr>)"
      by simp
  qed
qed

theorem train_guard_failure_witness:
  "stale example_env (ten_points (- 172800))
   \<and> fst (train example_env (init_model 1) (ten_points (- 172800)) empty_state) = False
   \<and> snd (snd (train example_env (init_model 1) (ten_points (- 172800)) empty_state)) = empty_state"
proof -
  note h = ten_points_stale
  then have "too_short (ten_points (- 172800)) \<or> stale example_env (ten_points (- 172800))
    \<or> low_liquidity (ten_points (- 172800)) \<or> stagnant (ten_points (- 172800))" by blast
  from mp [OF train_guard_failure this, of "init_model 1" empty_state] h
  show ?thesis by blast
qed

theorem train_guard_mutates_counterexample:
  "stale example_env (ten_points (- 172800))
   \<and> historical_df (init_model 1 :: unit prediction_model) = None
   \<and> historical_df (fst (snd (train example_env (init_model 1) (ten_points (- 172800)) empty_state)))
       = Some (ten_points (- 172800))
   \<and> fst (snd (train example_env (init_model 1) (ten_points (- 172800)) empty_state))
       \<noteq> init_model 1"
proof -
  have t: "train example_env (init_model 1) (ten_points (- 172800)) empty_state
      = (False, (init_model 1)\<lparr>historical_df := Some (ten_points (- 172800)),
           historical_prices := Some (map sell_price (ten_points (- 172800)))\<rparr>, empty_state)"
    by (rule train_stale [OF ten_points_not_short ten_points_stale])
  have n: "historical_df (init_model 1 :: unit prediction_model) = None"
    by (simp add: init_model_def)
  have "historical_df (fst (snd (train example_env (init_model 1) (ten_points (- 172800)) empty_state)))
       = Some (ten_points (- 172800))"
    by (simp add: t)
  with n ten_points_stale show ?thesis by auto
qed




end
